theory Spec2Isabelle
  imports Main "HOL-Library.List_Lexorder" "HOL-Library.Char_ord" "HOL-Library.Multiset"
begin

section \<open>The orchestration core of the Meson extension (src/extension.ts)\<close>

text \<open>
  The whole core is the function \<open>activate\<close> and the closures it registers. The model
  follows it top to bottom. A call into the editor host or into another module of the
  extension is an \<open>event\<close> of a trace, in the order the code issues it; what the host and
  the other modules answer (discovered files, settings, what the user clicks, the client
  the factory returns) is read from a \<open>host\<close> record; the workspace memento and the
  variables the closures capture are explicit state.
\<close>

subsection \<open>Values\<close>

text \<open>The type \<open>boolean | "ask"\<close> of the two tri-state settings.\<close>

datatype consent = CBool bool | Ask

text \<open>JavaScript truthiness of such a value: \<open>"ask"\<close> is a non-empty string.\<close>

fun truthy :: "consent \<Rightarrow> bool" where
  "truthy (CBool b) = b"
| "truthy Ask = True"

datatype settingsKey = SettingsKey_configureOnOpen | SettingsKey_downloadLanguageServer

datatype configurationTarget = Global | Workspace

datatype error = TypeError

text \<open>A promise that has settled one way or the other, or never does.\<close>

datatype 'a promise = Resolved 'a | Rejected | Pending

datatype task = Task (task_name: string) (task_detail: string)

record taskQuickPickItem =
  tq_label :: string
  tq_detail :: string
  tq_picked :: bool
  tq_task :: task

text \<open>An item of the configuration quick-pick (line 241).\<close>

record configurationItem =
  index :: nat
  label :: string

text \<open>The language client is an object of another module; only its identity matters here.\<close>

type_synonym languageClient = nat

text \<open>
  The workspace memento, one field for each key the code uses:
  \<open>mesonbuild.mesonFile\<close>, \<open>mesonbuild.buildDir\<close>, \<open>mesonbuild.sourceDir\<close> and
  \<open>mesonbuild.configurationChosen\<close>. \<open>None\<close> is a key that is not set; updating a key
  with \<open>undefined\<close> unsets it.
\<close>

record workspaceState =
  ws_mesonFile :: "string option"
  ws_buildDir :: "string option"
  ws_sourceDir :: "string option"
  ws_configurationChosen :: "bool option"

subsection \<open>Calls out of the core\<close>

datatype event =
    ShowInformationMessage string "string list"
  | ShowQuickPick "configurationItem list"
  | ExtensionConfigurationSet settingsKey consent configurationTarget
  | ExecuteCommand string
  | SetContext string bool
  | RunFirstTask string "string option"
  | RunTask task
  | GetTasks string
  | QuickPickShow string
  | QuickPickItems "taskQuickPickItem list"
  | QuickPickDispose
  | ClearCache
  | RebuildTests
  | GenEnvFile string
  | ExplorerRefresh
  | UseCompileCommands string
  | NewMesonProjectExplorer string string
  | RegisterDebugConfigurationProvider string string
  | CreateFileSystemWatcher string bool bool bool
  | CreateTestController string
  | CreateRunProfile string
  | RegisterTaskProvider string
  | RegisterCommand string
  | OnDidChangeConfiguration string
  | CreateLanguageServerClient string bool
  | ClientUpdate languageClient
  | PushSubscription languageClient
  | ClientStart languageClient
  | ClientRestart languageClient
  | ClientReloadConfig languageClient
  | AppendLine string
  | ActivateLinters string
  | ActivateFormatters string

subsection \<open>What the host answers\<close>

text \<open>What the user does with the task picker of \<open>pickTask\<close>.\<close>

datatype pickerAction =
    Accept nat \<comment> \<open>accepts while the item at this position is the active one\<close>
  | Hide \<comment> \<open>hides the picker once the items are shown\<close>
  | HideWhileBusy \<comment> \<open>hides it while \<open>getTasks\<close> is still pending\<close>

text \<open>
  The answers of the host and of the other modules during one run of \<open>activate\<close> or of one
  handler. A discovered file is represented by its \<open>fsPath\<close>, the only part of the Uri the
  code reads. \<open>dirname\<close> and \<open>relative\<close> are Node's, \<open>relativeBuildDir\<close> is the one of
  \<open>utils\<close>; \<open>collationKey\<close> stands for \<open>localeCompare\<close>: \<open>a.localeCompare(b)\<close> is negative,
  zero or positive as the key of \<open>a\<close> is below, equal to or above the key of \<open>b\<close>.
\<close>

record host =
  workspaceFolders :: "string list option"
  rootMesonFiles :: "string list"
  findFiles :: "string \<Rightarrow> string list"
  checkMesonIsConfigured :: "string \<Rightarrow> bool"
  configureOnOpenSetting :: consent
  downloadLanguageServerSetting :: consent
  languageServerSetting :: string
  createLanguageServerClient :: "string \<Rightarrow> bool \<Rightarrow> languageClient option"
  getTasks :: "string \<Rightarrow> task list"
  getMesonTasks :: "string \<Rightarrow> string \<Rightarrow> task list"
  configureResponse :: "string option"
  configurationPick :: "nat option"
  downloadResponse :: "string option"
  pickerAction :: pickerAction
  dirname :: "string \<Rightarrow> string"
  relative :: "string \<Rightarrow> string \<Rightarrow> string"
  relativeBuildDir :: "string \<Rightarrow> string"
  collationKey :: "string \<Rightarrow> string"

subsection \<open>The variables of \<open>activate\<close> that its closures capture\<close>

record resolved =
  root :: string
  mesonFiles :: "string list"
  mesonFile :: string
  sourceDir :: string
  buildDir :: string
  configurationChosen :: bool

record session = resolved +
  mesonTasks :: "task list option"
  client :: "languageClient option"
  downloadLanguageServer :: consent
  server :: string

subsection \<open>Configuration resolution (lines 43 to 65)\<close>

text \<open>
  Lines 47 to 56: the saved file and the flag. \<open>if (savedMesonFile)\<close> is a truthiness
  test, so the empty string takes neither branch and stays as it is.
\<close>

definition savedChoice :: "string list \<Rightarrow> workspaceState \<Rightarrow> string option \<times> bool" where
  "savedChoice files ws =
     (case ws_mesonFile ws of
        None \<Rightarrow> (None, False)
      | Some savedMesonFile \<Rightarrow>
          if savedMesonFile \<noteq> [] then
            (if savedMesonFile \<in> set files
             then (Some savedMesonFile,
                   (case ws_configurationChosen ws of None \<Rightarrow> False | Some b \<Rightarrow> b))
             else (None, False))
          else (Some savedMesonFile, False))"

text \<open>
  Lines 43 to 65. \<open>None\<close> is the early return on an empty discovery; otherwise the
  resolved variables and the memento after the four updates.
\<close>

definition resolveConfiguration ::
  "host \<Rightarrow> string \<Rightarrow> string list \<Rightarrow> workspaceState \<Rightarrow> (resolved \<times> workspaceState) option" where
  "resolveConfiguration h rt files ws =
     (case files of
        [] \<Rightarrow> None
      | first # _ \<Rightarrow>
          (case savedChoice files ws of
             (savedMesonFile, chosen) \<Rightarrow>
               let file = (case savedMesonFile of None \<Rightarrow> first | Some p \<Rightarrow> p);
                   src = dirname h file;
                   bld = relativeBuildDir h file
               in Some (\<lparr>root = rt, mesonFiles = files, mesonFile = file, sourceDir = src,
                          buildDir = bld, configurationChosen = chosen\<rparr>,
                        ws\<lparr>ws_mesonFile := Some file, ws_buildDir := Some bld,
                           ws_sourceDir := Some src, ws_configurationChosen := None\<rparr>)))"

subsection \<open>Registrations (lines 67 to 202)\<close>

definition updateHasProject :: "host \<Rightarrow> event list" where
  "updateHasProject h = [SetContext ''mesonbuild.hasProject'' (findFiles h ''**/meson.build'' \<noteq> [])]"

definition registrations :: "host \<Rightarrow> string \<Rightarrow> string \<Rightarrow> event list" where
  "registrations h rt bld =
     [NewMesonProjectExplorer rt bld,
      RegisterDebugConfigurationProvider ''DebugConfigurationProviderCppdbg'' bld,
      RegisterDebugConfigurationProvider ''DebugConfigurationProviderLldb'' bld,
      CreateFileSystemWatcher ''**/meson.build'' False True False]
     @ updateHasProject h @
     [CreateTestController ''meson-test-controller'',
      CreateRunProfile ''Meson debug test'',
      CreateRunProfile ''Meson run test'',
      RegisterTaskProvider ''meson'',
      CreateFileSystemWatcher (bld @ ''/build.ninja'') False False True,
      GenEnvFile bld,
      OnDidChangeConfiguration ''mesonbuild'',
      CreateFileSystemWatcher (bld @ ''/compile_commands.json'') False False True,
      UseCompileCommands bld,
      RegisterCommand ''mesonbuild.openBuildFile'',
      RegisterCommand ''mesonbuild.reconfigure'',
      RegisterCommand ''mesonbuild.build'',
      RegisterCommand ''mesonbuild.install'',
      RegisterCommand ''mesonbuild.test'',
      RegisterCommand ''mesonbuild.benchmark'',
      RegisterCommand ''mesonbuild.clean'',
      RegisterCommand ''mesonbuild.run'']"

subsection \<open>Configure on open (lines 204 to 261)\<close>

definition configurePrompt :: event where
  "configurePrompt = ShowInformationMessage
     ''Meson project detected in this workspace but does not seems to be configured. Would you like VS Code to configure it?''
     [''Yes'', ''Always'', ''No'', ''Never'']"

text \<open>
  Lines 205 to 236: the value of the variable \<open>configureOnOpen\<close> at line 238, and the calls
  made on the way. Only \<open>Yes\<close> and \<open>Always\<close> assign the variable.
\<close>

definition askConfigureOnOpen :: "host \<Rightarrow> bool \<Rightarrow> consent \<times> event list" where
  "askConfigureOnOpen h chosen =
     (let configureOnOpen = (if chosen then CBool True else configureOnOpenSetting h) in
      if configureOnOpen = Ask then
        (let response = configureResponse h in
         if response = Some ''No'' then (configureOnOpen, [configurePrompt])
         else if response = Some ''Never'' then
           (configureOnOpen,
            [configurePrompt, ExtensionConfigurationSet SettingsKey_configureOnOpen (CBool False) Workspace])
         else if response = Some ''Yes'' then (CBool True, [configurePrompt])
         else if response = Some ''Always'' then
           (CBool True,
            [configurePrompt, ExtensionConfigurationSet SettingsKey_configureOnOpen (CBool True) Workspace])
         else (configureOnOpen, [configurePrompt]))
      else (configureOnOpen, []))"

text \<open>Lines 241 and 242: one item for each discovered file, sorted by label; the sort is stable.\<close>

definition configurationItems :: "host \<Rightarrow> string \<Rightarrow> string list \<Rightarrow> configurationItem list" where
  "configurationItems h rt files =
     sort_key (\<lambda>it. collationKey h (label it))
       (map (\<lambda>(i, file). \<lparr>index = i, label = relative h rt file\<rparr>) (enumerate 0 files))"

text \<open>
  The host's \<open>showQuickPick\<close> without \<open>canPickMany\<close>: one of the items shown, or \<open>undefined\<close>
  when the user dismisses it. The user's choice is a position in the list shown.
\<close>

definition showQuickPick :: "configurationItem list \<Rightarrow> nat option \<Rightarrow> configurationItem option" where
  "showQuickPick items pick =
     (case pick of
        None \<Rightarrow> None
      | Some k \<Rightarrow> if k < length items then Some (items ! k) else None)"

text \<open>Lines 239 to 257, entered when \<open>configureOnOpen\<close> is truthy.\<close>

definition selectAndReconfigure ::
  "host \<Rightarrow> resolved \<Rightarrow> workspaceState \<Rightarrow> error + (workspaceState \<times> event list)" where
  "selectAndReconfigure h r ws =
     (if \<not> configurationChosen r \<and> length (mesonFiles r) > 1 then
        (let items = configurationItems h (root r) (mesonFiles r) in
         case showQuickPick items (configurationPick h) of
           None \<Rightarrow> Inr (ws, [ShowQuickPick items])
         | Some selection \<Rightarrow>
             if index selection < length (mesonFiles r) then
               (if mesonFiles r ! index selection \<noteq> mesonFile r then
                  Inr (ws\<lparr>ws_mesonFile := Some (mesonFiles r ! index selection),
                          ws_configurationChosen := Some True\<rparr>,
                       [ShowQuickPick items,
                        ExecuteCommand ''workbench.action.reloadWindow'',
                        RunFirstTask ''reconfigure'' None])
                else Inr (ws, [ShowQuickPick items, RunFirstTask ''reconfigure'' None]))
             else Inl TypeError)
      else Inr (ws, [RunFirstTask ''reconfigure'' None]))"

text \<open>Lines 204 to 261.\<close>

definition configureOnOpenFlow ::
  "host \<Rightarrow> resolved \<Rightarrow> workspaceState \<Rightarrow> error + (workspaceState \<times> event list)" where
  "configureOnOpenFlow h r ws =
     (if \<not> checkMesonIsConfigured h (buildDir r) then
        (case askConfigureOnOpen h (configurationChosen r) of
           (configureOnOpen, tr) \<Rightarrow>
             if truthy configureOnOpen then
               (case selectAndReconfigure h r ws of
                  Inl e \<Rightarrow> Inl e
                | Inr (ws', tr') \<Rightarrow> Inr (ws', tr @ tr'))
             else Inr (ws, tr))
      else Inr (ws, [RebuildTests]))"

subsection \<open>The language server (lines 263 to 332)\<close>

definition downloadPrompt :: event where
  "downloadPrompt = ShowInformationMessage
     ''Should the extension try to download the language server?''
     [''Yes'', ''Not this time'', ''Never'']"

text \<open>Lines 265 to 294. The second argument is what the prompt resolves to, if shown.\<close>

definition shouldDownload :: "consent \<Rightarrow> string option \<Rightarrow> bool \<times> event list" where
  "shouldDownload dl response =
     (case dl of
        CBool b \<Rightarrow> (b, [])
      | Ask \<Rightarrow>
          if response = Some ''Yes'' then
            (True, [downloadPrompt,
                    ExtensionConfigurationSet SettingsKey_downloadLanguageServer (CBool True) Global])
          else if response = Some ''Never'' then
            (False, [downloadPrompt,
                     ExtensionConfigurationSet SettingsKey_downloadLanguageServer (CBool False) Global])
          else if response = Some ''Not this time'' then
            (False, [downloadPrompt,
                     ExtensionConfigurationSet SettingsKey_downloadLanguageServer Ask Global])
          else (False, [downloadPrompt]))"

text \<open>Lines 296 to 315: the client, if any, and the calls made.\<close>

definition startLanguageServer ::
  "host \<Rightarrow> string \<Rightarrow> consent \<Rightarrow> string \<Rightarrow> languageClient option \<times> event list" where
  "startLanguageServer h rt dl srv =
     (case shouldDownload dl (downloadResponse h) of
        (download, tr) \<Rightarrow>
          (case (createLanguageServerClient h srv download, srv = ''Swift-MesonLSP'') of
             (Some c, True) \<Rightarrow>
               (Some c,
                tr @ [CreateLanguageServerClient srv download,
                      OnDidChangeConfiguration (''mesonbuild.'' @ srv),
                      ClientUpdate c,
                      PushSubscription c,
                      ClientStart c,
                      ClientReloadConfig c,
                      AppendLine ''Not enabling the muon linter/formatter because Swift-MesonLSP is active.''])
           | (cl, _) \<Rightarrow>
               (cl,
                tr @ [CreateLanguageServerClient srv download,
                      ActivateLinters rt,
                      ActivateFormatters rt])))"

text \<open>
  Lines 318 to 331, the handler of \<open>mesonbuild.restartLanguageServer\<close>. It runs later, on
  the session \<open>activate\<close> left, against the host as it is then.
\<close>

definition restartLanguageServer :: "host \<Rightarrow> session \<Rightarrow> session \<times> event list" where
  "restartLanguageServer h s =
     (case client s of
        None \<Rightarrow>
          (case shouldDownload (downloadLanguageServer s) (downloadResponse h) of
             (download, tr) \<Rightarrow>
               (case createLanguageServerClient h (server s) download of
                  None \<Rightarrow> (s, tr @ [CreateLanguageServerClient (server s) download])
                | Some c \<Rightarrow>
                    (s\<lparr>client := Some c\<rparr>,
                     tr @ [CreateLanguageServerClient (server s) download,
                           PushSubscription c,
                           ClientStart c,
                           ClientReloadConfig c])))
      | Some c \<Rightarrow> (s, [ClientRestart c, ClientReloadConfig c]))"

subsection \<open>\<open>activate\<close> (lines 33 to 377)\<close>

text \<open>
  The result is the session the closures share (\<open>None\<close> after an early return), the memento
  and the trace; \<open>Inl\<close> is a rejected promise. \<open>workspaceFolders\<close> is \<open>undefined\<close> without a
  folder; on an empty array line 41 reads \<open>uri\<close> of \<open>undefined\<close>.
\<close>

definition activate ::
  "host \<Rightarrow> workspaceState \<Rightarrow> error + (session option \<times> workspaceState \<times> event list)" where
  "activate h ws =
     (case workspaceFolders h of
        None \<Rightarrow> Inr (None, ws, [])
      | Some [] \<Rightarrow> Inl TypeError
      | Some (rt # _) \<Rightarrow>
          (case resolveConfiguration h rt (rootMesonFiles h) ws of
             None \<Rightarrow> Inr (None, ws, [])
           | Some (r, ws1) \<Rightarrow>
               (case configureOnOpenFlow h r ws1 of
                  Inl e \<Rightarrow> Inl e
                | Inr (ws2, tr2) \<Rightarrow>
                    (let dl = downloadLanguageServerSetting h;
                         srv = languageServerSetting h
                     in case startLanguageServer h rt dl srv of
                          (cl, tr3) \<Rightarrow>
                            Inr (Some \<lparr>root = root r, mesonFiles = mesonFiles r,
                                       mesonFile = mesonFile r, sourceDir = sourceDir r,
                                       buildDir = buildDir r,
                                       configurationChosen = configurationChosen r,
                                       mesonTasks = None, client = cl,
                                       downloadLanguageServer = dl, server = srv\<rparr>,
                                 ws2,
                                 registrations h rt (buildDir r) @ tr2 @ tr3
                                 @ [RegisterCommand ''mesonbuild.restartLanguageServer''])))))"

subsection \<open>The closures\<close>

text \<open>Lines 105 to 108: \<open>mesonTasks ??= getMesonTasks(buildDir, sourceDir)\<close>.\<close>

definition provideTasks :: "host \<Rightarrow> session \<Rightarrow> task list \<times> session" where
  "provideTasks h s =
     (case mesonTasks s of
        None \<Rightarrow> (let ts = getMesonTasks h (buildDir s) (sourceDir s)
                 in (ts, s\<lparr>mesonTasks := Some ts\<rparr>))
      | Some ts \<Rightarrow> (ts, s))"

text \<open>Lines 115 to 121.\<close>

definition changeHandler :: "session \<Rightarrow> session \<times> event list" where
  "changeHandler s =
     (s\<lparr>mesonTasks := None\<rparr>,
      [ClearCache, RebuildTests, GenEnvFile (buildDir s), ExplorerRefresh])"

text \<open>Lines 130 to 137; the argument is the event's \<open>affectsConfiguration\<close>.\<close>

definition configurationChanged :: "(string \<Rightarrow> bool) \<Rightarrow> session \<Rightarrow> session \<times> event list" where
  "configurationChanged affectsConfiguration s =
     (if affectsConfiguration ''mesonbuild.buildFolder'' then
        (s, [ExecuteCommand ''workbench.action.reloadWindow''])
      else if affectsConfiguration ''mesonbuild'' then changeHandler s
      else (s, []))"

text \<open>Lines 140 to 142.\<close>

definition compileCommandsHandler :: "session \<Rightarrow> event list" where
  "compileCommandsHandler s = [UseCompileCommands (buildDir s)]"

text \<open>
  Lines 334 to 360. The picker is shown before \<open>getTasks\<close> is awaited, and the two
  listeners are attached after it: a picker hidden in between fires its event to nobody,
  and the promise never settles. After an accept, \<open>dispose\<close> hides the picker, and the
  \<open>reject\<close> that follows finds the promise resolved.
\<close>

definition pickTask :: "host \<Rightarrow> string \<Rightarrow> event list \<times> taskQuickPickItem option promise" where
  "pickTask h mode =
     (let shown = [QuickPickShow (''Select target to '' @ mode @ ''.''), GetTasks mode];
          items = map (\<lambda>t. \<lparr>tq_label = task_name t, tq_detail = task_detail t,
                             tq_picked = False, tq_task = t\<rparr>) (getTasks h mode)
      in case pickerAction h of
           HideWhileBusy \<Rightarrow> (shown @ [QuickPickItems items], Pending)
         | Hide \<Rightarrow> (shown @ [QuickPickItems items], Rejected)
         | Accept k \<Rightarrow>
             (shown @ [QuickPickItems items, QuickPickDispose],
              Resolved (if k < length items then Some (items ! k) else None)))"

text \<open>
  Lines 362 to 376. \<open>if (name)\<close> is a truthiness test: the empty name goes to the picker.
  The promise the function returns is never rejected.
\<close>

definition pickAndRunTask :: "host \<Rightarrow> string \<Rightarrow> string option \<Rightarrow> event list \<times> unit promise" where
  "pickAndRunTask h mode name =
     (if name \<noteq> None \<and> name \<noteq> Some [] then ([RunFirstTask mode name], Resolved ())
      else
        (case pickTask h mode of
           (tr, Resolved (Some taskItem)) \<Rightarrow> (tr @ [RunTask (tq_task taskItem)], Resolved ())
         | (tr, Resolved None) \<Rightarrow> (tr, Resolved ())
         | (tr, Rejected) \<Rightarrow> (tr, Resolved ())
         | (tr, Pending) \<Rightarrow> (tr, Pending)))"

text \<open>
  Lines 162 to 202: the handlers of the task commands, by command identifier. None of them
  awaits \<open>pickAndRunTask\<close>. (\<open>mesonbuild.openBuildFile\<close> opens the file a tree node names
  and is left out.)
\<close>

definition taskCommand :: "host \<Rightarrow> string \<Rightarrow> string option \<Rightarrow> event list" where
  "taskCommand h command name =
     (if command = ''mesonbuild.reconfigure'' then [RunFirstTask ''reconfigure'' None]
      else if command = ''mesonbuild.build'' then fst (pickAndRunTask h ''build'' name)
      else if command = ''mesonbuild.install'' then [RunFirstTask ''install'' None]
      else if command = ''mesonbuild.test'' then fst (pickAndRunTask h ''test'' name)
      else if command = ''mesonbuild.benchmark'' then fst (pickAndRunTask h ''benchmark'' name)
      else if command = ''mesonbuild.clean'' then [RunFirstTask ''clean'' None]
      else if command = ''mesonbuild.run'' then fst (pickAndRunTask h ''run'' None)
      else [])"

subsection \<open>The restart command as the specification words it\<close>

text \<open>
  Section 4.4 of the specification: ``if no client exists, behaves exactly like a fresh
  start (re-running the consent protocol). If a client exists, call its restart then
  reloadConfig.'' The fresh start is lines 296 to 315.
\<close>

definition restartLanguageServer_spec :: "host \<Rightarrow> session \<Rightarrow> session \<times> event list" where
  "restartLanguageServer_spec h s =
     (case client s of
        None \<Rightarrow>
          (case startLanguageServer h (root s) (downloadLanguageServer s) (server s) of
             (cl, tr) \<Rightarrow> (s\<lparr>client := cl\<rparr>, tr))
      | Some c \<Rightarrow> (s, [ClientRestart c, ClientReloadConfig c]))"

subsection \<open>Concrete hosts\<close>

text \<open>
  POSIX stand-ins for the path functions, for the runs below: a workspace \<open>/w\<close> and a
  build folder \<open>builddir\<close> next to the chosen file.
\<close>

definition posixDirname :: "string \<Rightarrow> string" where
  "posixDirname p = rev (drop 1 (dropWhile (\<lambda>c. c \<noteq> CHR ''/'') (rev p)))"

definition posixRelative :: "string \<Rightarrow> string \<Rightarrow> string" where
  "posixRelative from to = drop (Suc (length from)) to"

definition quietHost :: host where
  "quietHost =
     \<lparr>workspaceFolders = Some [''/w''],
      rootMesonFiles = [''/w/meson.build''],
      findFiles = (\<lambda>_. [''/w/meson.build'']),
      checkMesonIsConfigured = (\<lambda>_. False),
      configureOnOpenSetting = CBool False,
      downloadLanguageServerSetting = CBool False,
      languageServerSetting = ''Swift-MesonLSP'',
      createLanguageServerClient = (\<lambda>_ _. None),
      getTasks = (\<lambda>_. []),
      getMesonTasks = (\<lambda>_ _. []),
      configureResponse = None,
      configurationPick = None,
      downloadResponse = None,
      pickerAction = Hide,
      dirname = posixDirname,
      relative = posixRelative,
      relativeBuildDir = (\<lambda>p. posixDirname p @ ''/builddir''),
      collationKey = (\<lambda>s. s)\<rparr>"

definition freshState :: workspaceState where
  "freshState = \<lparr>ws_mesonFile = None, ws_buildDir = None, ws_sourceDir = None,
                 ws_configurationChosen = None\<rparr>"

text \<open>The configure-on-open setting is \<open>"ask"\<close>, and nobody answers the prompt.\<close>

definition askingHost :: host where
  "askingHost = quietHost\<lparr>configureOnOpenSetting := Ask\<rparr>"

text \<open>The factory returns a client.\<close>

definition richHost :: host where
  "richHost = quietHost\<lparr>createLanguageServerClient := (\<lambda>_ _. Some 1)\<rparr>"

text \<open>Two project files, found in this order; configure on open is on.\<close>

definition twoFileHost :: host where
  "twoFileHost = quietHost\<lparr>rootMesonFiles := [''/w/b/meson.build'', ''/w/a/meson.build''],
                            configureOnOpenSetting := CBool True\<rparr>"

text \<open>The download setting is \<open>"ask"\<close>, and the user answers \<open>Never\<close>.\<close>

definition neverHost :: host where
  "neverHost = quietHost\<lparr>downloadLanguageServerSetting := Ask, downloadResponse := Some ''Never''\<rparr>"

text \<open>A memento left by a session whose file is gone since.\<close>

definition staleState :: workspaceState where
  "staleState = freshState\<lparr>ws_mesonFile := Some ''/w/gone/meson.build'',
                            ws_configurationChosen := Some True\<rparr>"

text \<open>The session \<open>activate\<close> leaves on \<open>quietHost\<close>.\<close>

definition idleSession :: session where
  "idleSession =
     \<lparr>root = ''/w'', mesonFiles = [''/w/meson.build''], mesonFile = ''/w/meson.build'',
      sourceDir = ''/w'', buildDir = ''/w/builddir'', configurationChosen = False,
      mesonTasks = None, client = None, downloadLanguageServer = CBool False,
      server = ''Swift-MesonLSP''\<rparr>"

text \<open>What resolution gives on \<open>twoFileHost\<close> with no valid saved file.\<close>

definition twoFileResolved :: resolved where
  "twoFileResolved =
     \<lparr>root = ''/w'', mesonFiles = [''/w/b/meson.build'', ''/w/a/meson.build''],
      mesonFile = ''/w/b/meson.build'', sourceDir = ''/w/b'', buildDir = ''/w/b/builddir'',
      configurationChosen = False\<rparr>"

subsection \<open>Reading a result of \<open>activate\<close>\<close>

fun traceOf :: "error + (session option \<times> workspaceState \<times> event list) \<Rightarrow> event list" where
  "traceOf (Inr (_, _, tr)) = tr"
| "traceOf (Inl _) = []"

fun sessionOf :: "error + (session option \<times> workspaceState \<times> event list) \<Rightarrow> session option" where
  "sessionOf (Inr (s, _, _)) = s"
| "sessionOf (Inl _) = None"

fun stateOf :: "error + (session option \<times> workspaceState \<times> event list) \<Rightarrow> workspaceState option" where
  "stateOf (Inr (_, ws, _)) = Some ws"
| "stateOf (Inl _) = None"

section \<open>Properties\<close>

lemmas activate_defs =
  activate_def resolveConfiguration_def savedChoice_def configureOnOpenFlow_def
  askConfigureOnOpen_def selectAndReconfigure_def startLanguageServer_def shouldDownload_def
  Let_def

subsection \<open>The items of the configuration quick-pick\<close>

lemma in_items:
  "it \<in> set (configurationItems h rt files) \<Longrightarrow>
     index it < length files \<and> label it = relative h rt (files ! index it)"
  by (auto simp: configurationItems_def in_set_enumerate_eq)

lemma sorted_items:
  "sorted (map (\<lambda>it. collationKey h (label it)) (configurationItems h rt files))"
  by (simp add: configurationItems_def)

lemma index_items:
  "mset (map index (configurationItems h rt files)) = mset [0..<length files]"
proof -
  let ?xs = "map (\<lambda>(i, file). \<lparr>index = i, label = relative h rt file\<rparr>) (enumerate 0 files)"
  have "index \<circ> (\<lambda>(i, file). \<lparr>index = i, label = relative h rt file\<rparr>) = fst"
    by (rule ext) (simp add: case_prod_unfold)
  then have *: "map index ?xs = [0..<length files]"
    by simp
  have "mset (map index (configurationItems h rt files)) = mset (map index ?xs)"
    unfolding configurationItems_def by (simp only: mset_map mset_sort)
  then show ?thesis
    by (simp only: *)
qed

lemma showQuickPick_in: "showQuickPick items pick = Some sel \<Longrightarrow> sel \<in> set items"
  by (auto simp: showQuickPick_def split: option.splits if_splits)

lemma twoFileItems:
  "configurationItems twoFileHost ''/w'' [''/w/b/meson.build'', ''/w/a/meson.build''] =
     [\<lparr>index = 1, label = ''a/meson.build''\<rparr>, \<lparr>index = 0, label = ''b/meson.build''\<rparr>]"
  by (simp add: configurationItems_def twoFileHost_def quietHost_def posixRelative_def)

subsection \<open>The shape of a run of \<open>activate\<close>\<close>

text \<open>
  Line 248 indexes \<open>mesonFiles\<close> with the index of an item the list was built from, so it
  never reads out of range.
\<close>

lemma selectAndReconfigure_Inr:
  "\<exists>ws' tr. selectAndReconfigure h r ws = Inr (ws', tr)"
  by (auto simp: selectAndReconfigure_def Let_def split: option.splits
           dest!: showQuickPick_in in_items)

lemma configureOnOpenFlow_Inr:
  "\<exists>ws' tr. configureOnOpenFlow h r ws = Inr (ws', tr)"
  using selectAndReconfigure_Inr [of h r ws]
  by (auto simp: configureOnOpenFlow_def split: prod.splits)

lemma resolveConfiguration_Some:
  assumes "files \<noteq> []"
  shows "\<exists>r ws1. resolveConfiguration h rt files ws = Some (r, ws1)"
  using assms
  by (cases files; cases "savedChoice files ws") (simp_all add: resolveConfiguration_def Let_def)

lemma resolveConfiguration_fields:
  assumes "resolveConfiguration h rt files ws = Some (r, ws1)"
  shows "root r = rt \<and> mesonFiles r = files \<and> files \<noteq> [] \<and>
         sourceDir r = dirname h (mesonFile r) \<and> buildDir r = relativeBuildDir h (mesonFile r) \<and>
         mesonFile r = (case fst (savedChoice files ws) of None \<Rightarrow> hd files | Some p \<Rightarrow> p) \<and>
         configurationChosen r = snd (savedChoice files ws) \<and>
         ws1 = \<lparr>ws_mesonFile = Some (mesonFile r), ws_buildDir = Some (buildDir r),
                ws_sourceDir = Some (sourceDir r), ws_configurationChosen = None\<rparr>"
  using assms
  by (cases files; cases "savedChoice files ws")
     (auto simp: resolveConfiguration_def Let_def split: option.splits)

text \<open>With a folder and a project file, \<open>activate\<close> runs to its end.\<close>

lemma activate_active:
  assumes "workspaceFolders h = Some (rt # others)" and "rootMesonFiles h \<noteq> []"
  shows "\<exists>s ws' tr. activate h ws = Inr (Some s, ws', tr)"
proof -
  obtain r ws1 where r: "resolveConfiguration h rt (rootMesonFiles h) ws = Some (r, ws1)"
    using resolveConfiguration_Some [OF assms(2)] by blast
  obtain ws2 tr2 where c: "configureOnOpenFlow h r ws1 = Inr (ws2, tr2)"
    using configureOnOpenFlow_Inr by blast
  show ?thesis
    by (simp add: activate_def assms(1) r c Let_def split: prod.splits)
qed

lemma activate_SomeD:
  assumes "activate h ws = Inr (Some s, ws', tr)"
  shows "\<exists>r ws1 tr2.
           resolveConfiguration h (root s) (rootMesonFiles h) ws = Some (r, ws1) \<and>
           configureOnOpenFlow h r ws1 = Inr (ws', tr2) \<and>
           (root r = root s \<and> mesonFiles r = mesonFiles s \<and> mesonFile r = mesonFile s \<and>
            sourceDir r = sourceDir s \<and> buildDir r = buildDir s \<and>
            configurationChosen r = configurationChosen s) \<and>
           (mesonTasks s = None \<and>
            downloadLanguageServer s = downloadLanguageServerSetting h \<and>
            server s = languageServerSetting h \<and>
            client s = fst (startLanguageServer h (root s) (downloadLanguageServer s) (server s))) \<and>
           tr = registrations h (root s) (buildDir s) @ tr2
                @ snd (startLanguageServer h (root s) (downloadLanguageServer s) (server s))
                @ [RegisterCommand ''mesonbuild.restartLanguageServer'']"
  using assms
  by (auto simp: activate_def Let_def resolveConfiguration_def
           split: option.splits list.splits sum.splits prod.splits)

lemma activate_SomeE [consumes 1, case_names active]:
  assumes "activate h ws = Inr (Some s, ws', tr)"
  obtains r ws1 tr2 where
    "resolveConfiguration h (root s) (rootMesonFiles h) ws = Some (r, ws1)"
    "configureOnOpenFlow h r ws1 = Inr (ws', tr2)"
    "root r = root s \<and> mesonFiles r = mesonFiles s \<and> mesonFile r = mesonFile s \<and>
     sourceDir r = sourceDir s \<and> buildDir r = buildDir s \<and>
     configurationChosen r = configurationChosen s"
    "mesonTasks s = None \<and>
     downloadLanguageServer s = downloadLanguageServerSetting h \<and>
     server s = languageServerSetting h \<and>
     client s = fst (startLanguageServer h (root s) (downloadLanguageServer s) (server s))"
    "tr = registrations h (root s) (buildDir s) @ tr2
          @ snd (startLanguageServer h (root s) (downloadLanguageServer s) (server s))
          @ [RegisterCommand ''mesonbuild.restartLanguageServer'']"
proof -
  from activate_SomeD [OF assms] obtain r ws1 tr2 where
    "resolveConfiguration h (root s) (rootMesonFiles h) ws = Some (r, ws1) \<and>
     configureOnOpenFlow h r ws1 = Inr (ws', tr2) \<and>
     (root r = root s \<and> mesonFiles r = mesonFiles s \<and> mesonFile r = mesonFile s \<and>
      sourceDir r = sourceDir s \<and> buildDir r = buildDir s \<and>
      configurationChosen r = configurationChosen s) \<and>
     (mesonTasks s = None \<and>
      downloadLanguageServer s = downloadLanguageServerSetting h \<and>
      server s = languageServerSetting h \<and>
      client s = fst (startLanguageServer h (root s) (downloadLanguageServer s) (server s))) \<and>
     tr = registrations h (root s) (buildDir s) @ tr2
          @ snd (startLanguageServer h (root s) (downloadLanguageServer s) (server s))
          @ [RegisterCommand ''mesonbuild.restartLanguageServer'']"
    by (elim exE)
  then show thesis
    using that by blast
qed

subsection \<open>The consent protocol\<close>

text \<open>
  Claim C1. \<open>shouldDownload\<close> returns a boolean setting at once, with no prompt and no
  write. On \<open>"ask"\<close> it prompts: \<open>Yes\<close> writes \<open>true\<close> to the global settings and returns
  true, \<open>Never\<close> writes \<open>false\<close> and returns false, \<open>Not this time\<close> writes \<open>"ask"\<close> and
  returns false, and a dismissed prompt returns false and writes nothing.
\<close>

theorem shouldDownload_protocol:
  "shouldDownload (CBool b) response = (b, []) \<and>
   shouldDownload Ask (Some ''Yes'') =
     (True, [downloadPrompt,
             ExtensionConfigurationSet SettingsKey_downloadLanguageServer (CBool True) Global]) \<and>
   shouldDownload Ask (Some ''Never'') =
     (False, [downloadPrompt,
              ExtensionConfigurationSet SettingsKey_downloadLanguageServer (CBool False) Global]) \<and>
   shouldDownload Ask (Some ''Not this time'') =
     (False, [downloadPrompt,
              ExtensionConfigurationSet SettingsKey_downloadLanguageServer Ask Global]) \<and>
   shouldDownload Ask None = (False, [downloadPrompt])"
  by (simp add: shouldDownload_def)

subsection \<open>Dismissing a pick or a prompt\<close>

text \<open>
  The task picker: hidden, before or after the tasks arrive, it runs no task, and the
  promise of \<open>pickAndRunTask\<close> is never a rejected one.
\<close>

lemma pickAndRunTask_dismissed:
  assumes "pickerAction h = Hide \<or> pickerAction h = HideWhileBusy"
  shows "fst (pickAndRunTask h mode None) =
           [QuickPickShow (''Select target to '' @ mode @ ''.''), GetTasks mode,
            QuickPickItems (map (\<lambda>t. \<lparr>tq_label = task_name t, tq_detail = task_detail t,
                                       tq_picked = False, tq_task = t\<rparr>) (getTasks h mode))]"
  using assms by (auto simp: pickAndRunTask_def pickTask_def Let_def)

lemma pickAndRunTask_never_rejects: "snd (pickAndRunTask h mode name) \<noteq> Rejected"
  by (auto simp: pickAndRunTask_def pickTask_def Let_def split: pickerAction.splits)

text \<open>
  The configure-on-open prompt. No answer sets the variable \<open>configureOnOpen\<close> to false, and
  line 238 tests it for truthiness: whatever the user does with the prompt, the
  configure flow is entered unless the setting itself is \<open>false\<close>.
\<close>

lemma askConfigureOnOpen_truthy:
  "truthy (fst (askConfigureOnOpen h chosen)) = (chosen \<or> configureOnOpenSetting h \<noteq> CBool False)"
  by (cases "configureOnOpenSetting h") (auto simp: askConfigureOnOpen_def Let_def)

lemma askConfigureOnOpen_trace:
  "set (snd (askConfigureOnOpen h chosen)) \<subseteq>
     {configurePrompt,
      ExtensionConfigurationSet SettingsKey_configureOnOpen (CBool False) Workspace,
      ExtensionConfigurationSet SettingsKey_configureOnOpen (CBool True) Workspace}"
  by (auto simp: askConfigureOnOpen_def Let_def)

text \<open>
  Claim C2, at the input where the code departs from it: one project file, a build
  directory that is not configured, the setting \<open>"ask"\<close>, and the prompt dismissed. The
  claim has a dismissed prompt run no task; the code goes on to run the first
  \<open>reconfigure\<close> task.
\<close>

theorem dismissed_configure_prompt_reconfigures:
  "configureOnOpenSetting askingHost = Ask \<and>
   configureResponse askingHost = None \<and>
   sessionOf (activate askingHost freshState) = Some idleSession \<and>
   stateOf (activate askingHost freshState) =
     Some \<lparr>ws_mesonFile = Some ''/w/meson.build'', ws_buildDir = Some ''/w/builddir'',
           ws_sourceDir = Some ''/w'', ws_configurationChosen = None\<rparr> \<and>
   traceOf (activate askingHost freshState) =
     registrations askingHost ''/w'' ''/w/builddir'' @
     [configurePrompt, RunFirstTask ''reconfigure'' None,
      CreateLanguageServerClient ''Swift-MesonLSP'' False,
      ActivateLinters ''/w'', ActivateFormatters ''/w'',
      RegisterCommand ''mesonbuild.restartLanguageServer'']"
  by (simp add: activate_defs askingHost_def quietHost_def freshState_def idleSession_def
       posixDirname_def)

subsection \<open>Linters and formatters\<close>

lemma registrations_no_linters:
  "ActivateLinters x \<notin> set (registrations h rt bld) \<and>
   ActivateFormatters x \<notin> set (registrations h rt bld)"
  by (simp add: registrations_def updateHasProject_def)

lemma configureOnOpenFlow_no_linters:
  assumes "configureOnOpenFlow h r ws = Inr (ws', tr)"
  shows "ActivateLinters x \<notin> set tr \<and> ActivateFormatters x \<notin> set tr"
  using assms
  by (auto simp: configureOnOpenFlow_def askConfigureOnOpen_def selectAndReconfigure_def Let_def
        configurePrompt_def
      split: if_splits option.splits prod.splits sum.splits)

lemma shouldDownload_no_linters:
  "ActivateLinters x \<notin> set (snd (shouldDownload dl resp)) \<and>
   ActivateFormatters x \<notin> set (snd (shouldDownload dl resp))"
  by (auto simp: shouldDownload_def downloadPrompt_def split: consent.splits)

lemma startLanguageServer_linters:
  "(ActivateLinters x \<in> set (snd (startLanguageServer h rt dl srv))) =
     (x = rt \<and> (fst (startLanguageServer h rt dl srv) = None \<or> srv \<noteq> ''Swift-MesonLSP''))"
  "(ActivateFormatters x \<in> set (snd (startLanguageServer h rt dl srv))) =
     (x = rt \<and> (fst (startLanguageServer h rt dl srv) = None \<or> srv \<noteq> ''Swift-MesonLSP''))"
  using shouldDownload_no_linters [of x dl "downloadResponse h"]
  by (auto simp: startLanguageServer_def split: prod.splits option.splits bool.splits)

text \<open>
  Claim C3 as stated fails: with \<open>Swift-MesonLSP\<close> configured and no client returned by
  the factory (nothing to download, or the download declined), line 297 takes the else
  branch and both activations are called.
\<close>

theorem rich_identifier_without_client_activates_linters:
  "languageServerSetting quietHost = ''Swift-MesonLSP'' \<and>
   ActivateLinters ''/w'' \<in> set (traceOf (activate quietHost freshState)) \<and>
   ActivateFormatters ''/w'' \<in> set (traceOf (activate quietHost freshState))"
  by (simp add: activate_defs quietHost_def freshState_def posixDirname_def)

text \<open>
  Claim C3, amended. In a run of \<open>activate\<close> that gets past discovery, the linters and the
  formatters are activated, for the workspace root, exactly when it is not the case that
  the identifier is \<open>Swift-MesonLSP\<close> and the factory returned a client: skipped when
  both hold, called in every other case.
\<close>

theorem linters_skipped_iff_rich_client:
  assumes "activate h ws = Inr (Some s, ws', tr)"
  shows "server s = languageServerSetting h \<and>
         (ActivateLinters x \<in> set tr) =
           (x = root s \<and> (client s = None \<or> server s \<noteq> ''Swift-MesonLSP'')) \<and>
         (ActivateFormatters x \<in> set tr) =
           (x = root s \<and> (client s = None \<or> server s \<noteq> ''Swift-MesonLSP''))"
  using assms
proof (cases rule: activate_SomeE)
  case (active r ws1 tr2)
  show ?thesis
    using configureOnOpenFlow_no_linters [OF active(2), of x]
      registrations_no_linters [of x h "root s" "buildDir s"] active(4)
    by (simp add: active(5) startLanguageServer_linters)
qed

theorem linters_skipped_iff_rich_client_witness:
  "\<exists>tr. activate richHost freshState =
          Inr (Some (idleSession\<lparr>client := Some 1\<rparr>),
               \<lparr>ws_mesonFile = Some ''/w/meson.build'', ws_buildDir = Some ''/w/builddir'',
                ws_sourceDir = Some ''/w'', ws_configurationChosen = None\<rparr>, tr) \<and>
        ActivateLinters ''/w'' \<notin> set tr \<and> ActivateFormatters ''/w'' \<notin> set tr"
proof -
  have "\<exists>tr. activate richHost freshState =
          Inr (Some (idleSession\<lparr>client := Some 1\<rparr>),
               \<lparr>ws_mesonFile = Some ''/w/meson.build'', ws_buildDir = Some ''/w/builddir'',
                ws_sourceDir = Some ''/w'', ws_configurationChosen = None\<rparr>, tr)"
    by (simp add: activate_defs richHost_def quietHost_def freshState_def idleSession_def
          posixDirname_def)
  then obtain tr where a: "activate richHost freshState =
          Inr (Some (idleSession\<lparr>client := Some 1\<rparr>),
               \<lparr>ws_mesonFile = Some ''/w/meson.build'', ws_buildDir = Some ''/w/builddir'',
                ws_sourceDir = Some ''/w'', ws_configurationChosen = None\<rparr>, tr)" ..
  from linters_skipped_iff_rich_client [OF a, of "''/w''"] a show ?thesis
    by (auto simp: idleSession_def)
qed

subsection \<open>The restart command\<close>

text \<open>
  Claim C4 as stated fails: on a session without a client, against a host whose factory
  now returns a client, the command issues four calls where the fresh start issues seven.
  It does not subscribe to configuration changes, does not call \<open>update\<close> and does not
  write the log line.
\<close>

theorem restart_differs_from_fresh_start:
  "sessionOf (activate quietHost freshState) = Some idleSession \<and>
   snd (restartLanguageServer richHost idleSession) =
     [CreateLanguageServerClient ''Swift-MesonLSP'' False,
      PushSubscription 1, ClientStart 1, ClientReloadConfig 1] \<and>
   snd (restartLanguageServer_spec richHost idleSession) =
     [CreateLanguageServerClient ''Swift-MesonLSP'' False,
      OnDidChangeConfiguration ''mesonbuild.Swift-MesonLSP'',
      ClientUpdate 1, PushSubscription 1, ClientStart 1, ClientReloadConfig 1,
      AppendLine ''Not enabling the muon linter/formatter because Swift-MesonLSP is active.''] \<and>
   restartLanguageServer richHost idleSession \<noteq> restartLanguageServer_spec richHost idleSession"
  by (simp add: activate_defs restartLanguageServer_def restartLanguageServer_spec_def
       richHost_def quietHost_def freshState_def idleSession_def posixDirname_def)

text \<open>
  Claim C4, amended. Without a client, the command runs the consent protocol on the
  consent value of the session and calls the factory with the server identifier of the
  session, and up to that call its trace is that of a fresh start; if the factory returns
  a client, the command registers it and calls \<open>start\<close> then \<open>reloadConfig\<close>, whatever the
  identifier, and nothing else. With a client, it calls that client's \<open>restart\<close> then
  \<open>reloadConfig\<close>, and nothing else: no prompt, no linters, no formatters.
\<close>

theorem restart_sequence:
  "restartLanguageServer h (s\<lparr>client := None\<rparr>) =
     (s\<lparr>client := createLanguageServerClient h (server s)
                     (fst (shouldDownload (downloadLanguageServer s) (downloadResponse h)))\<rparr>,
      snd (shouldDownload (downloadLanguageServer s) (downloadResponse h))
      @ CreateLanguageServerClient (server s)
          (fst (shouldDownload (downloadLanguageServer s) (downloadResponse h)))
      # (case createLanguageServerClient h (server s)
                (fst (shouldDownload (downloadLanguageServer s) (downloadResponse h))) of
           None \<Rightarrow> []
         | Some c \<Rightarrow> [PushSubscription c, ClientStart c, ClientReloadConfig c])) \<and>
   take (Suc (length (snd (shouldDownload (downloadLanguageServer s) (downloadResponse h)))))
        (snd (startLanguageServer h rt (downloadLanguageServer s) (server s))) =
   take (Suc (length (snd (shouldDownload (downloadLanguageServer s) (downloadResponse h)))))
        (snd (restartLanguageServer h (s\<lparr>client := None\<rparr>))) \<and>
   restartLanguageServer h (s\<lparr>client := Some c\<rparr>) =
     (s\<lparr>client := Some c\<rparr>, [ClientRestart c, ClientReloadConfig c])"
  by (auto simp: restartLanguageServer_def startLanguageServer_def
           split: prod.splits option.splits bool.splits)

subsection \<open>Configuration resolution\<close>

text \<open>
  The memento key \<open>mesonbuild.mesonFile\<close> is written at lines 62 and 249 only, with the
  saved path when it passed the test of line 49, or with a discovered path. A discovered
  path is an \<open>fsPath\<close>, never the empty string, so the key never holds the empty string.
\<close>

lemma persisted_path_nonempty:
  assumes "resolveConfiguration h rt files ws = Some (r, ws1)"
    and "[] \<notin> set files" and "ws_mesonFile ws \<noteq> Some []"
    and "selectAndReconfigure h r ws1 = Inr (ws2, tr)"
  shows "ws_mesonFile ws1 \<noteq> Some [] \<and> ws_mesonFile ws2 \<noteq> Some []"
proof -
  note f = resolveConfiguration_fields [OF assms(1)]
  from f assms(2,3) have m: "mesonFile r \<noteq> []"
    by (cases files) (auto simp: savedChoice_def split: option.splits if_splits)
  with f have 1: "ws_mesonFile ws1 \<noteq> Some []" by simp
  have nth: "mesonFiles r ! i \<noteq> []" if "i < length (mesonFiles r)" for i
    using that f assms(2) by (metis nth_mem)
  from assms(4) 1 have "ws_mesonFile ws2 \<noteq> Some []"
    by (auto simp: selectAndReconfigure_def Let_def nth split: if_splits option.splits)
  with 1 show ?thesis by simp
qed

text \<open>
  Were it there all the same, line 49 would skip it as falsy and line 58 would keep it,
  \<open>??\<close> replacing \<open>undefined\<close> only: the empty string would be the file of the session.
\<close>

lemma resolution_of_empty_saved_path:
  assumes "resolveConfiguration h rt files (ws\<lparr>ws_mesonFile := Some []\<rparr>) = Some (r, ws1)"
  shows "mesonFile r = [] \<and> ws_mesonFile ws1 = Some []"
  using resolveConfiguration_fields [OF assms] by (simp add: savedChoice_def)

text \<open>
  Claim C5. For a non-empty discovery and a saved path (a path is not the empty string):
  a saved path that is among the discovered files is the file of the session, and
  \<open>configurationChosen\<close> is the saved flag, false when the flag is not set; a saved path
  that is not among them is dropped, the first discovered file is the file of the
  session and is what the memento holds afterwards. No saved path gives the first file
  too. Resolution returns in every case.
\<close>

theorem resolution_of_saved_choice:
  assumes "files \<noteq> []" and "ws_mesonFile ws \<noteq> Some []"
  shows "\<exists>r ws1. resolveConfiguration h rt files ws = Some (r, ws1) \<and>
           (\<forall>p. ws_mesonFile ws = Some p \<and> p \<in> set files \<longrightarrow>
                  mesonFile r = p \<and>
                  configurationChosen r =
                    (case ws_configurationChosen ws of None \<Rightarrow> False | Some b \<Rightarrow> b)) \<and>
           (\<forall>p. ws_mesonFile ws = Some p \<and> p \<notin> set files \<longrightarrow>
                  mesonFile r = hd files \<and> \<not> configurationChosen r \<and>
                  ws_mesonFile ws1 = Some (hd files)) \<and>
           (ws_mesonFile ws = None \<longrightarrow> mesonFile r = hd files \<and> \<not> configurationChosen r)"
proof -
  from resolveConfiguration_Some [OF assms(1)] obtain r ws1 where
    r: "resolveConfiguration h rt files ws = Some (r, ws1)" by blast
  from resolveConfiguration_fields [OF r] assms(2) show ?thesis
    by (auto simp: r savedChoice_def split: option.splits if_splits)
qed

theorem resolution_of_saved_choice_witness:
  "(\<exists>r ws1. resolveConfiguration twoFileHost ''/w'' (rootMesonFiles twoFileHost)
              (freshState\<lparr>ws_mesonFile := Some ''/w/a/meson.build'',
                          ws_configurationChosen := Some True\<rparr>) = Some (r, ws1) \<and>
            mesonFile r = ''/w/a/meson.build'' \<and> configurationChosen r) \<and>
   (\<exists>r ws1. resolveConfiguration twoFileHost ''/w'' (rootMesonFiles twoFileHost) staleState
              = Some (r, ws1) \<and>
            mesonFile r = ''/w/b/meson.build'' \<and> \<not> configurationChosen r \<and>
            ws_mesonFile ws1 = Some ''/w/b/meson.build'') \<and>
   (\<exists>r ws1. resolveConfiguration twoFileHost ''/w'' (rootMesonFiles twoFileHost) freshState
              = Some (r, ws1) \<and>
            mesonFile r = ''/w/b/meson.build'' \<and> \<not> configurationChosen r)"
  using resolution_of_saved_choice
          [of "rootMesonFiles twoFileHost"
              "freshState\<lparr>ws_mesonFile := Some ''/w/a/meson.build'',
                          ws_configurationChosen := Some True\<rparr>"
              twoFileHost "''/w''"]
        resolution_of_saved_choice [of "rootMesonFiles twoFileHost" staleState twoFileHost "''/w''"]
        resolution_of_saved_choice [of "rootMesonFiles twoFileHost" freshState twoFileHost "''/w''"]
  by (auto simp: twoFileHost_def quietHost_def freshState_def staleState_def)

subsection \<open>The configuration picker\<close>

lemma askConfigureOnOpen_no_picker:
  "ShowQuickPick x \<notin> set (snd (askConfigureOnOpen h chosen))"
  using askConfigureOnOpen_trace [of h chosen] by (auto simp: configurePrompt_def)

lemma configureOnOpenFlow_picker:
  assumes "configureOnOpenFlow h r ws = Inr (ws', tr)"
  shows "(ShowQuickPick x \<in> set tr) =
           (x = configurationItems h (root r) (mesonFiles r) \<and>
            \<not> checkMesonIsConfigured h (buildDir r) \<and>
            truthy (fst (askConfigureOnOpen h (configurationChosen r))) \<and>
            \<not> configurationChosen r \<and> 1 < length (mesonFiles r))"
  using assms askConfigureOnOpen_no_picker [of x h "configurationChosen r"]
  by (auto simp: configureOnOpenFlow_def selectAndReconfigure_def Let_def
           split: if_splits prod.splits sum.splits option.splits)

lemma activate_picker:
  assumes "activate h ws = Inr (Some s, ws', tr)"
  shows "(ShowQuickPick x \<in> set tr) =
           (x = configurationItems h (root s) (mesonFiles s) \<and>
            \<not> checkMesonIsConfigured h (buildDir s) \<and>
            truthy (fst (askConfigureOnOpen h (configurationChosen s))) \<and>
            \<not> configurationChosen s \<and> 1 < length (mesonFiles s))"
  using assms
proof (cases rule: activate_SomeE)
  case (active r ws1 tr2)
  have 1: "ShowQuickPick x \<notin> set (registrations h rt bld)" for rt bld
    by (simp add: registrations_def updateHasProject_def)
  have 2: "ShowQuickPick x \<notin> set (snd (startLanguageServer h rt dl srv))" for rt dl srv
    by (auto simp: startLanguageServer_def shouldDownload_def downloadPrompt_def
             split: prod.splits option.splits bool.splits consent.splits if_splits)
  show ?thesis
    using configureOnOpenFlow_picker [OF active(2), of x] 1 2 active(3)
    by (simp add: active(5))
qed

text \<open>The closures never show the configuration picker.\<close>

lemma shouldDownload_no_picker:
  "ShowQuickPick x \<notin> set (snd (shouldDownload dl response))"
  by (cases dl) (simp_all add: shouldDownload_def downloadPrompt_def)

lemma restartLanguageServer_no_picker:
  "ShowQuickPick x \<notin> set (snd (restartLanguageServer h s))"
  using shouldDownload_no_picker [of x "downloadLanguageServer s" "downloadResponse h"]
  by (auto simp: restartLanguageServer_def split: option.splits prod.splits)

lemma pickAndRunTask_no_picker:
  "ShowQuickPick x \<notin> set (fst (pickAndRunTask h mode name))"
  by (cases "pickerAction h") (simp_all add: pickAndRunTask_def pickTask_def Let_def)

lemma closures_show_no_configuration_picker:
  "ShowQuickPick x \<notin> set (snd (changeHandler s)) \<and>
   ShowQuickPick x \<notin> set (snd (configurationChanged affects s)) \<and>
   ShowQuickPick x \<notin> set (compileCommandsHandler s) \<and>
   ShowQuickPick x \<notin> set (snd (restartLanguageServer h s)) \<and>
   ShowQuickPick x \<notin> set (taskCommand h command name)"
  by (simp add: changeHandler_def configurationChanged_def compileCommandsHandler_def
        restartLanguageServer_no_picker pickAndRunTask_no_picker taskCommand_def)

text \<open>
  Claim C6. In a run of \<open>activate\<close> on a memento whose saved path, if any, is a path: with
  exactly one discovered file, that file is the file of the session and no configuration
  picker is shown at any point of the run; with two or more and no saved path among
  them, the first discovered file is the file of the session, nothing counts as chosen,
  and when the configure flow is entered (the build directory is not configured and the
  variable \<open>configureOnOpen\<close> is truthy at line 238) the picker is shown. Its items are
  in ascending order of the collation of their labels, there is exactly one for each
  discovered file, and the label of each is the path of its file relative to the root.
\<close>

theorem single_file_picked_several_files_picker:
  assumes "activate h ws = Inr (Some s, ws', tr)" and "ws_mesonFile ws \<noteq> Some []"
  shows "(\<forall>f. rootMesonFiles h = [f] \<longrightarrow>
              mesonFile s = f \<and> (\<forall>items. ShowQuickPick items \<notin> set tr)) \<and>
         (2 \<le> length (rootMesonFiles h) \<and>
          (\<forall>p. ws_mesonFile ws = Some p \<longrightarrow> p \<notin> set (rootMesonFiles h)) \<longrightarrow>
            mesonFile s = hd (rootMesonFiles h) \<and> \<not> configurationChosen s \<and>
            (\<not> checkMesonIsConfigured h (buildDir s) \<and>
             truthy (fst (askConfigureOnOpen h False)) \<longrightarrow>
               ShowQuickPick (configurationItems h (root s) (rootMesonFiles h)) \<in> set tr)) \<and>
         sorted (map (\<lambda>it. collationKey h (label it))
                   (configurationItems h (root s) (rootMesonFiles h))) \<and>
         mset (map index (configurationItems h (root s) (rootMesonFiles h))) =
           mset [0..<length (rootMesonFiles h)] \<and>
         (\<forall>it \<in> set (configurationItems h (root s) (rootMesonFiles h)).
            label it = relative h (root s) (rootMesonFiles h ! index it))"
proof -
  from assms(1) obtain r ws1 where
    r: "resolveConfiguration h (root s) (rootMesonFiles h) ws = Some (r, ws1)" and
    s: "root r = root s \<and> mesonFiles r = mesonFiles s \<and> mesonFile r = mesonFile s \<and>
        sourceDir r = sourceDir s \<and> buildDir r = buildDir s \<and>
        configurationChosen r = configurationChosen s"
    by (cases rule: activate_SomeE)
  note f = resolveConfiguration_fields [OF r]
  note p = activate_picker [OF assms(1)]
  have one: "mesonFile s = f \<and> (\<forall>items. ShowQuickPick items \<notin> set tr)"
    if "rootMesonFiles h = [f]" for f
    using that f assms(2) s by (auto simp: p savedChoice_def split: option.splits if_splits)
  have several: "mesonFile s = hd (rootMesonFiles h) \<and> \<not> configurationChosen s"
    if "\<forall>p. ws_mesonFile ws = Some p \<longrightarrow> p \<notin> set (rootMesonFiles h)"
    using that f assms(2) s by (auto simp: savedChoice_def split: option.splits if_splits)
  have shown: "ShowQuickPick (configurationItems h (root s) (rootMesonFiles h)) \<in> set tr"
    if "2 \<le> length (rootMesonFiles h)" "\<not> configurationChosen s"
       "\<not> checkMesonIsConfigured h (buildDir s)" "truthy (fst (askConfigureOnOpen h False))"
    using that f s by (simp add: p)
  have perm: "mset (map index (configurationItems h (root s) (rootMesonFiles h))) =
                mset [0..<length (rootMesonFiles h)]"
    by (rule index_items)
  have labels: "\<forall>it \<in> set (configurationItems h (root s) (rootMesonFiles h)).
                  label it = relative h (root s) (rootMesonFiles h ! index it)"
    using in_items by blast
  have ordered: "sorted (map (\<lambda>it. collationKey h (label it))
                          (configurationItems h (root s) (rootMesonFiles h)))"
    by (rule sorted_items)
  show ?thesis
    using one several shown perm labels ordered by blast
qed

theorem single_file_picked_several_files_picker_witness:
  "(\<exists>s ws' tr. activate quietHost freshState = Inr (Some s, ws', tr) \<and>
       mesonFile s = ''/w/meson.build'' \<and> (\<forall>items. ShowQuickPick items \<notin> set tr)) \<and>
   (\<exists>s ws' tr. activate twoFileHost staleState = Inr (Some s, ws', tr) \<and>
       mesonFile s = ''/w/b/meson.build'' \<and>
       ShowQuickPick [\<lparr>index = 1, label = ''a/meson.build''\<rparr>,
                      \<lparr>index = 0, label = ''b/meson.build''\<rparr>] \<in> set tr)"
proof -
  obtain s1 ws1 tr1 where a1: "activate quietHost freshState = Inr (Some s1, ws1, tr1)"
    using activate_active [of quietHost "''/w''" "[]" freshState] by (auto simp: quietHost_def)
  obtain s2 ws2 tr2 where a2: "activate twoFileHost staleState = Inr (Some s2, ws2, tr2)"
    using activate_active [of twoFileHost "''/w''" "[]" staleState]
    by (auto simp: twoFileHost_def quietHost_def)
  have r2: "root s2 = ''/w''" "buildDir s2 = ''/w/b/builddir''"
    using a2 by (auto simp: activate_defs twoFileHost_def quietHost_def staleState_def
                   freshState_def posixDirname_def split: prod.splits sum.splits)
  have "mesonFile s1 = ''/w/meson.build'' \<and> (\<forall>items. ShowQuickPick items \<notin> set tr1)"
    using single_file_picked_several_files_picker [OF a1]
    by (simp add: quietHost_def freshState_def)
  moreover have "mesonFile s2 = ''/w/b/meson.build'' \<and>
       ShowQuickPick [\<lparr>index = 1, label = ''a/meson.build''\<rparr>,
                      \<lparr>index = 0, label = ''b/meson.build''\<rparr>] \<in> set tr2"
    using single_file_picked_several_files_picker [OF a2] twoFileItems
    by (simp add: r2 askConfigureOnOpen_truthy)
       (simp add: twoFileHost_def quietHost_def staleState_def freshState_def)
  ultimately show ?thesis
    using a1 a2 by blast
qed

subsection \<open>What a run persists\<close>

lemma configureOnOpenFlow_state:
  assumes "configureOnOpenFlow h r ws = Inr (ws', tr)"
  shows "ws' = ws \<or>
         (\<exists>selection.
            showQuickPick (configurationItems h (root r) (mesonFiles r)) (configurationPick h)
              = Some selection \<and>
            mesonFiles r ! index selection \<noteq> mesonFile r \<and>
            ShowQuickPick (configurationItems h (root r) (mesonFiles r)) \<in> set tr \<and>
            ws' = ws\<lparr>ws_mesonFile := Some (mesonFiles r ! index selection),
                      ws_configurationChosen := Some True\<rparr>)"
  using assms
  by (auto simp: configureOnOpenFlow_def selectAndReconfigure_def Let_def
           split: if_splits prod.splits sum.splits option.splits)

text \<open>
  Claim C7. In every run of \<open>activate\<close> that gets past discovery, the resolution pass
  leaves the memento holding the file of the session, the build directory and the source
  directory derived from it, and no \<open>configurationChosen\<close>. The rest of the run either
  leaves the memento as it is, or the picker was shown and the user picked a file other
  than the file of the session: only then is \<open>configurationChosen\<close> set to true, together
  with the picked file.
\<close>

theorem resolution_persists_and_resets:
  assumes "activate h ws = Inr (Some s, ws', tr)"
  shows "\<exists>r ws1.
           resolveConfiguration h (root s) (rootMesonFiles h) ws = Some (r, ws1) \<and>
           mesonFile r = mesonFile s \<and>
           buildDir s = relativeBuildDir h (mesonFile s) \<and>
           sourceDir s = dirname h (mesonFile s) \<and>
           ws1 = \<lparr>ws_mesonFile = Some (mesonFile s), ws_buildDir = Some (buildDir s),
                  ws_sourceDir = Some (sourceDir s), ws_configurationChosen = None\<rparr> \<and>
           (ws' = ws1 \<or>
            (\<exists>selection.
               showQuickPick (configurationItems h (root s) (mesonFiles s)) (configurationPick h)
                 = Some selection \<and>
               mesonFiles s ! index selection \<noteq> mesonFile s \<and>
               ShowQuickPick (configurationItems h (root s) (mesonFiles s)) \<in> set tr \<and>
               ws' = ws1\<lparr>ws_mesonFile := Some (mesonFiles s ! index selection),
                          ws_configurationChosen := Some True\<rparr>))"
  using assms
proof (cases rule: activate_SomeE)
  case (active r ws1 tr2)
  note f = resolveConfiguration_fields [OF active(1)]
  from configureOnOpenFlow_state [OF active(2)] active(3) have
    "ws' = ws1 \<or>
     (\<exists>selection.
        showQuickPick (configurationItems h (root s) (mesonFiles s)) (configurationPick h)
          = Some selection \<and>
        mesonFiles s ! index selection \<noteq> mesonFile s \<and>
        ShowQuickPick (configurationItems h (root s) (mesonFiles s)) \<in> set tr \<and>
        ws' = ws1\<lparr>ws_mesonFile := Some (mesonFiles s ! index selection),
                   ws_configurationChosen := Some True\<rparr>)"
    by (auto simp: active(5))
  with f active(1,3) show ?thesis
    by auto
qed

theorem resolution_persists_and_resets_witness:
  "\<exists>s tr r.
     activate (twoFileHost\<lparr>configurationPick := Some 0\<rparr>) staleState =
       Inr (Some s,
            \<lparr>ws_mesonFile = Some ''/w/a/meson.build'', ws_buildDir = Some ''/w/b/builddir'',
             ws_sourceDir = Some ''/w/b'', ws_configurationChosen = Some True\<rparr>, tr) \<and>
     resolveConfiguration (twoFileHost\<lparr>configurationPick := Some 0\<rparr>) ''/w''
         [''/w/b/meson.build'', ''/w/a/meson.build''] staleState =
       Some (r, \<lparr>ws_mesonFile = Some ''/w/b/meson.build'', ws_buildDir = Some ''/w/b/builddir'',
                 ws_sourceDir = Some ''/w/b'', ws_configurationChosen = None\<rparr>)"
proof -
  let ?h = "twoFileHost\<lparr>configurationPick := Some 0\<rparr>"
  let ?ws = "\<lparr>ws_mesonFile = Some ''/w/a/meson.build'', ws_buildDir = Some ''/w/b/builddir'',
              ws_sourceDir = Some ''/w/b'', ws_configurationChosen = Some True\<rparr>"
  have "\<exists>s tr. activate ?h staleState = Inr (Some s, ?ws, tr) \<and>
          root s = ''/w'' \<and> mesonFile s = ''/w/b/meson.build'' \<and>
          buildDir s = ''/w/b/builddir'' \<and> sourceDir s = ''/w/b''"
    by (simp add: activate_defs configurationItems_def showQuickPick_def twoFileHost_def
          quietHost_def staleState_def freshState_def posixDirname_def posixRelative_def)
  then obtain s tr where a: "activate ?h staleState = Inr (Some s, ?ws, tr)"
    and s: "root s = ''/w''" "mesonFile s = ''/w/b/meson.build''"
           "buildDir s = ''/w/b/builddir''" "sourceDir s = ''/w/b''"
    by blast
  have files: "rootMesonFiles ?h = [''/w/b/meson.build'', ''/w/a/meson.build'']"
    by (simp add: twoFileHost_def quietHost_def)
  from resolution_persists_and_resets [OF a] obtain r where
    "resolveConfiguration ?h ''/w'' [''/w/b/meson.build'', ''/w/a/meson.build''] staleState =
       Some (r, \<lparr>ws_mesonFile = Some ''/w/b/meson.build'', ws_buildDir = Some ''/w/b/builddir'',
                 ws_sourceDir = Some ''/w/b'', ws_configurationChosen = None\<rparr>)"
    by (auto simp: s files)
  with a show ?thesis by blast
qed

subsection \<open>The build-artifact change handler\<close>

text \<open>
  Claim C8. Running the change handler twice in a row leaves the session, and so the
  cached task list, as one run leaves it: the cache is empty after each run, the second
  run issues the same four calls as the first, and the task provider then recomputes the
  same list from the same back end.
\<close>

theorem changeHandler_twice:
  "fst (changeHandler (fst (changeHandler s))) = fst (changeHandler s) \<and>
   mesonTasks (fst (changeHandler s)) = None \<and>
   snd (changeHandler (fst (changeHandler s))) = snd (changeHandler s) \<and>
   provideTasks h (fst (changeHandler (fst (changeHandler s)))) =
     provideTasks h (fst (changeHandler s))"
  by (simp add: changeHandler_def)

subsection \<open>The consent value of the restart command\<close>

text \<open>
  Claim C9. The restart command passes \<open>shouldDownload\<close> the value that line 263 read
  during \<open>activate\<close>. After a run that read \<open>"ask"\<close> (and so prompted) and left no client,
  the command prompts again, first thing, against any later host: what the settings
  hold by then, a boolean written by the earlier answer included, makes no difference
  to what the command does, and download is allowed only when this prompt is answered
  \<open>Yes\<close>.
\<close>

theorem restart_asks_again:
  assumes "activate h ws = Inr (Some s, ws', tr)"
    and "downloadLanguageServerSetting h = Ask" and "client s = None"
  shows "downloadLanguageServer s = Ask \<and> downloadPrompt \<in> set tr \<and>
         restartLanguageServer (later\<lparr>downloadLanguageServerSetting := persisted\<rparr>) s =
           restartLanguageServer later s \<and>
         (\<exists>rest. snd (restartLanguageServer later s) = downloadPrompt # rest) \<and>
         fst (shouldDownload (downloadLanguageServer s) (downloadResponse later)) =
           (downloadResponse later = Some ''Yes'')"
  using assms(1)
proof (cases rule: activate_SomeE)
  case (active r ws1 tr2)
  from active(4) assms(2) have s: "downloadLanguageServer s = Ask" by simp
  have 1: "downloadPrompt \<in> set (snd (startLanguageServer h rt Ask srv))" for rt srv
    by (auto simp: startLanguageServer_def shouldDownload_def
             split: prod.splits option.splits bool.splits)
  have 2: "\<exists>rest. snd (restartLanguageServer later s) = downloadPrompt # rest"
    using assms(3) s
    by (auto simp: restartLanguageServer_def shouldDownload_def split: prod.splits option.splits)
  have 3: "restartLanguageServer (later\<lparr>downloadLanguageServerSetting := persisted\<rparr>) s =
           restartLanguageServer later s"
    by (simp add: restartLanguageServer_def split: option.splits prod.splits)
  have 4: "fst (shouldDownload Ask (downloadResponse later)) =
             (downloadResponse later = Some ''Yes'')"
    by (simp add: shouldDownload_def)
  show ?thesis
    using 1 2 3 4 s by (simp add: active(5))
qed

theorem restart_asks_again_witness:
  "\<exists>s ws' tr. activate neverHost freshState = Inr (Some s, ws', tr) \<and>
     downloadLanguageServerSetting neverHost = Ask \<and> client s = None \<and>
     ExtensionConfigurationSet SettingsKey_downloadLanguageServer (CBool False) Global \<in> set tr \<and>
     snd (restartLanguageServer (quietHost\<lparr>downloadLanguageServerSetting := CBool False\<rparr>) s) =
       [downloadPrompt, CreateLanguageServerClient ''Swift-MesonLSP'' False]"
proof -
  obtain s ws' tr where a: "activate neverHost freshState = Inr (Some s, ws', tr)"
    using activate_active [of neverHost "''/w''" "[]" freshState]
    by (auto simp: neverHost_def quietHost_def)
  have s: "client s = None" "server s = ''Swift-MesonLSP''"
    and tr: "ExtensionConfigurationSet SettingsKey_downloadLanguageServer (CBool False) Global
               \<in> set tr"
    using a by (auto simp: activate_defs neverHost_def quietHost_def freshState_def
                   posixDirname_def split: prod.splits sum.splits)
  have d: "downloadLanguageServerSetting neverHost = Ask"
    by (simp add: neverHost_def quietHost_def)
  from restart_asks_again [OF a d s(1), where later = quietHost and persisted = "CBool False"]
  have "downloadLanguageServer s = Ask" by simp
  then have "snd (restartLanguageServer (quietHost\<lparr>downloadLanguageServerSetting := CBool False\<rparr>) s) =
       [downloadPrompt, CreateLanguageServerClient ''Swift-MesonLSP'' False]"
    using s by (simp add: restartLanguageServer_def shouldDownload_def quietHost_def)
  with a d s tr show ?thesis by blast
qed

subsection \<open>The configuration picker, dismissed or confirming the current file\<close>

text \<open>
  Claim C10. In the configure flow with several discovered files and nothing chosen (the
  build directory is not configured, the variable \<open>configureOnOpen\<close> is truthy at line
  238): when the picker is dismissed, the flow ends with the picker as its last call and
  the memento as it was, so no task runs and nothing is persisted; when the user picks
  the file that is already the file of the session, the flow runs the first
  \<open>reconfigure\<close> task after the picker, with the memento as it was and no window reload.
  Before the picker, the flow has made no call but the prompt and the setting write that
  goes with its answer.
\<close>

theorem configuration_pick_dismissed_or_unchanged:
  assumes "\<not> checkMesonIsConfigured h (buildDir r)" and "\<not> configurationChosen r"
    and "1 < length (mesonFiles r)" and "truthy (fst (askConfigureOnOpen h False))"
  shows "(showQuickPick (configurationItems h (root r) (mesonFiles r)) (configurationPick h) = None \<longrightarrow>
            configureOnOpenFlow h r ws =
              Inr (ws, snd (askConfigureOnOpen h False)
                       @ [ShowQuickPick (configurationItems h (root r) (mesonFiles r))])) \<and>
         (\<forall>selection.
            showQuickPick (configurationItems h (root r) (mesonFiles r)) (configurationPick h)
              = Some selection \<and>
            mesonFiles r ! index selection = mesonFile r \<longrightarrow>
            configureOnOpenFlow h r ws =
              Inr (ws, snd (askConfigureOnOpen h False)
                       @ [ShowQuickPick (configurationItems h (root r) (mesonFiles r)),
                          RunFirstTask ''reconfigure'' None])) \<and>
         set (snd (askConfigureOnOpen h False)) \<subseteq>
           {configurePrompt,
            ExtensionConfigurationSet SettingsKey_configureOnOpen (CBool False) Workspace,
            ExtensionConfigurationSet SettingsKey_configureOnOpen (CBool True) Workspace}"
proof -
  have range: "index selection < length (mesonFiles r)"
    if "showQuickPick (configurationItems h (root r) (mesonFiles r)) (configurationPick h)
          = Some selection"
    for selection
    using that showQuickPick_in in_items by blast
  show ?thesis
    using assms range askConfigureOnOpen_trace [of h False]
    by (auto simp: configureOnOpenFlow_def selectAndReconfigure_def Let_def split: prod.splits)
qed

theorem configuration_pick_dismissed_or_unchanged_witness:
  "configureOnOpenFlow twoFileHost twoFileResolved freshState =
     Inr (freshState,
          [ShowQuickPick [\<lparr>index = 1, label = ''a/meson.build''\<rparr>,
                          \<lparr>index = 0, label = ''b/meson.build''\<rparr>]]) \<and>
   configureOnOpenFlow (twoFileHost\<lparr>configurationPick := Some (Suc 0)\<rparr>) twoFileResolved freshState =
     Inr (freshState,
          [ShowQuickPick [\<lparr>index = 1, label = ''a/meson.build''\<rparr>,
                          \<lparr>index = 0, label = ''b/meson.build''\<rparr>],
           RunFirstTask ''reconfigure'' None])"
proof -
  let ?same = "twoFileHost\<lparr>configurationPick := Some (Suc 0)\<rparr>"
  have items: "configurationItems ?same ''/w'' [''/w/b/meson.build'', ''/w/a/meson.build''] =
               [\<lparr>index = 1, label = ''a/meson.build''\<rparr>, \<lparr>index = 0, label = ''b/meson.build''\<rparr>]"
    using twoFileItems by (simp add: configurationItems_def)
  have ask: "askConfigureOnOpen twoFileHost False = (CBool True, [])"
            "askConfigureOnOpen ?same False = (CBool True, [])"
    by (simp_all add: askConfigureOnOpen_def twoFileHost_def quietHost_def)
  have pick: "configurationPick twoFileHost = None" "configurationPick ?same = Some (Suc 0)"
    by (simp_all add: twoFileHost_def quietHost_def)
  have cfg: "\<not> checkMesonIsConfigured twoFileHost x" "\<not> checkMesonIsConfigured ?same x" for x
    by (simp_all add: twoFileHost_def quietHost_def)
  show ?thesis
    using configuration_pick_dismissed_or_unchanged [of twoFileHost twoFileResolved freshState]
          configuration_pick_dismissed_or_unchanged [of ?same twoFileResolved freshState]
    by (simp add: items twoFileItems ask cfg pick twoFileResolved_def showQuickPick_def)
qed

end
